theory Spec2Isabelle
  imports Complex_Main "HOL-Library.AList"
begin

section \<open>Numbers and rounding (utils/helpers.js)\<close>

text \<open>
  The JavaScript numbers of the order engine are modelled as exact rationals: every
  amount, percentage, price and share count is a \<open>rat\<close>, and the arithmetic of the source
  is read as exact arithmetic. \<open>Math.round\<close> rounds to the nearest integer with halves
  going up, which is \<open>\<lfloor>x + 1/2\<rfloor>\<close>.
\<close>

definition Math_round :: "rat \<Rightarrow> int" where
  "Math_round x = \<lfloor>x + 1 / 2\<rfloor>"

definition roundToDecimal :: "rat \<Rightarrow> nat \<Rightarrow> rat" where
  "roundToDecimal v decimals =
     (let multiplier = 10 ^ decimals
      in of_int (Math_round (v * multiplier)) / multiplier)"

section \<open>Configuration constants (config/constants.js)\<close>

definition DEFAULT_ASSET_PRICE :: rat where
  "DEFAULT_ASSET_PRICE = 100"

definition DEFAULT_DECIMAL_PRECISION :: nat where
  "DEFAULT_DECIMAL_PRECISION = 3"

definition MARKET_OPEN_HOUR :: int where
  "MARKET_OPEN_HOUR = 9"

definition MARKET_OPEN_MINUTE :: int where
  "MARKET_OPEN_MINUTE = 30"

definition MARKET_CLOSE_HOUR :: int where
  "MARKET_CLOSE_HOUR = 16"

definition MARKET_CLOSE_MINUTE :: int where
  "MARKET_CLOSE_MINUTE = 0"

definition TRADING_DAYS :: "int list" where
  "TRADING_DAYS = [1, 2, 3, 4, 5]"

section \<open>Domain model (models/order.model.d.ts)\<close>

datatype OrderType = BUY | SELL

datatype AssetType = Stock | Etf | Crypto | Commodity | Bond | MutualFund

datatype Mode = Allocation | Amount

text \<open>An optional field of the source (\<open>allocation?: number\<close>) is an \<open>option\<close>.\<close>

record PortfolioAsset =
  pa_symbol :: string
  pa_type :: "AssetType option"
  pa_allocation :: "rat option"
  pa_amount :: "rat option"
  pa_price :: "rat option"

record AssetOrder =
  ao_symbol :: string
  ao_type :: "AssetType option"
  ao_allocation :: rat
  ao_price :: rat
  ao_amount :: rat
  ao_shares :: rat
  ao_totalCost :: rat

record CreateOrderRequest =
  req_orderType :: OrderType
  req_amount :: "rat option"
  req_assets :: "PortfolioAsset list"

section \<open>Errors and log events (utils/errors.ts, utils/logger)\<close>

datatype details = NoDetails | Symbols "string list" | TotalAllocation rat

text \<open>
  \<open>InvalidPortfolioError\<close> carries its message and its details object,
  \<open>OrderNotFoundError\<close> the order id. \<open>TypeError\<close> is
  what reading a field of \<open>assets[0]\<close> throws on an empty asset array.
  \<open>NonFiniteAllocation\<close> marks the runs in which the source divides by a zero total: it
  carries on with NaN or Infinity there, values that the rationals do not have.
\<close>

datatype error =
    InvalidPortfolioError string details
  | OrderNotFoundError string
  | TypeError
  | NonFiniteAllocation

datatype log_event = RoundingWarning rat rat rat nat

section \<open>The order service (services/order.service.js)\<close>

text \<open>\<open>x || 0\<close> on an optional number: \<open>undefined\<close> and \<open>0\<close> both give \<open>0\<close>.\<close>

definition or0 :: "rat option \<Rightarrow> rat" where
  "or0 v = (case v of None \<Rightarrow> 0 | Some x \<Rightarrow> x)"

definition prepareOrderData ::
  "CreateOrderRequest \<Rightarrow> error + (Mode \<times> rat \<times> PortfolioAsset list)" where
  "prepareOrderData request =
     (case req_assets request of
        [] \<Rightarrow> Inl TypeError
      | firstAsset # _ \<Rightarrow>
          if pa_allocation firstAsset \<noteq> None \<and> req_amount request \<noteq> None
          then Inr (Allocation, the (req_amount request), req_assets request)
          else if pa_amount firstAsset \<noteq> None
          then (let totalAmount =
                      fold (\<lambda>asset sum. sum + or0 (pa_amount asset)) (req_assets request) 0
                in if totalAmount = 0 then Inl NonFiniteAllocation
                   else Inr (Amount, totalAmount,
                     map (\<lambda>asset.
                            \<lparr> pa_symbol = pa_symbol asset,
                              pa_type = pa_type asset,
                              pa_allocation =
                                Some (roundToDecimal (or0 (pa_amount asset) / totalAmount * 100) 2),
                              pa_amount = None,
                              pa_price = pa_price asset \<rparr>)
                          (req_assets request)))
          else Inl (InvalidPortfolioError ''Invalid portfolio configuration'' NoDetails))"

text \<open>
  The message of the second failure is the fixed part of the source's template; the sum
  it prints is the one carried in the details.
\<close>

definition validatePortfolio :: "PortfolioAsset list \<Rightarrow> error + unit" where
  "validatePortfolio assets =
     (let zeroAllocations = filter (\<lambda>a. pa_allocation a = Some 0) assets
      in if length zeroAllocations > 0
         then Inl (InvalidPortfolioError ''Portfolio contains assets with zero allocation''
                     (Symbols (map pa_symbol zeroAllocations)))
         else
           (let totalAllocation = fold (\<lambda>asset sum. sum + or0 (pa_allocation asset)) assets 0;
                tolerance = 1 / 100
            in if \<bar>totalAllocation - 100\<bar> > tolerance
               then Inl (InvalidPortfolioError ''Portfolio allocations must sum to 100%''
                           (TotalAllocation totalAllocation))
               else Inr ()))"

text \<open>\<open>asset.price || DEFAULT_ASSET_PRICE\<close>: a missing or zero price gives the default.\<close>

definition priceOrDefault :: "rat option \<Rightarrow> rat" where
  "priceOrDefault p = (case p of None \<Rightarrow> DEFAULT_ASSET_PRICE
                       | Some x \<Rightarrow> if x = 0 then DEFAULT_ASSET_PRICE else x)"

text \<open>
  The \<open>for\<close> loop of \<open>calculateAssetOrders\<close>: the list is what is left of \<open>assets\<close> from
  index \<open>i\<close> on, so the last asset is the one with nothing after it; the last argument
  is \<open>allocatedAmount\<close>.
\<close>

fun calculateLoop :: "PortfolioAsset list \<Rightarrow> rat \<Rightarrow> nat \<Rightarrow> rat \<Rightarrow> AssetOrder list" where
  "calculateLoop [] totalAmount decimalPrecision allocatedAmount = []"
| "calculateLoop (asset # rest) totalAmount decimalPrecision allocatedAmount =
     (let isLast = (rest = []);
          price = priceOrDefault (pa_price asset);
          allocation = or0 (pa_allocation asset);
          amount = (if isLast then totalAmount - allocatedAmount
                    else roundToDecimal ((allocation / 100) * totalAmount) 2);
          rawShares = amount / price;
          shares = roundToDecimal rawShares decimalPrecision;
          totalCost = roundToDecimal (shares * price) 2
      in \<lparr> ao_symbol = pa_symbol asset, ao_type = pa_type asset,
           ao_allocation = allocation, ao_price = price, ao_amount = amount,
           ao_shares = shares, ao_totalCost = totalCost \<rparr>
         # calculateLoop rest totalAmount decimalPrecision (allocatedAmount + amount))"

text \<open>The orders, and the warnings the function logs on its way.\<close>

definition calculateAssetOrders ::
  "PortfolioAsset list \<Rightarrow> rat \<Rightarrow> nat \<Rightarrow> AssetOrder list \<times> log_event list" where
  "calculateAssetOrders assets totalAmount decimalPrecision =
     (let orders = calculateLoop assets totalAmount decimalPrecision 0;
          totalCost = fold (\<lambda>order sum. sum + ao_totalCost order) orders 0;
          difference = \<bar>totalAmount - totalCost\<bar>
      in (orders,
          if difference > 1 / 100
          then [RoundingWarning totalAmount totalCost difference (length orders)]
          else []))"

text \<open>
  The splitting part of \<open>createOrder\<close>: mode detection, validation and the split, in
  the order of the source, for the share precision read from the configuration.
\<close>

definition splitOrder ::
  "CreateOrderRequest \<Rightarrow> nat \<Rightarrow>
     error + (Mode \<times> rat \<times> PortfolioAsset list \<times> AssetOrder list \<times> log_event list)" where
  "splitOrder request decimalPrecision =
     (case prepareOrderData request of
        Inl e \<Rightarrow> Inl e
      | Inr (mode, totalAmount, normalizedAssets) \<Rightarrow>
          (case validatePortfolio normalizedAssets of
             Inl e \<Rightarrow> Inl e
           | Inr _ \<Rightarrow>
               (let (assetOrders, logs) =
                      calculateAssetOrders normalizedAssets totalAmount decimalPrecision
                in Inr (mode, totalAmount, normalizedAssets, assetOrders, logs))))"

section \<open>The request schema (validators/order.validator.ts)\<close>





section \<open>The order repository (repositories/order.repository.js)\<close>

text \<open>
  \<open>createdAt\<close> is the instant the ISO string of the source denotes, in milliseconds
  since the epoch (what \<open>new Date(order.createdAt).getTime()\<close> reads). The metadata
  block of an order is kept to its mode.
\<close>

record Order =
  orderId :: string
  orderType :: OrderType
  totalAmount :: rat
  portfolio :: "PortfolioAsset list"
  assetOrders :: "AssetOrder list"
  executionTime :: string
  canExecuteNow :: bool
  nextAvailableTime :: "string option"
  createdAt :: int
  decimalPrecision :: nat
  mode :: Mode

text \<open>
  The date filters of a query are the instants that the supplied strings denote
  (\<open>new Date(params.fromDate)\<close>), in milliseconds since the epoch; limit and offset
  are natural numbers.
\<close>

record OrderQueryParams =
  q_orderType :: "OrderType option"
  q_symbol :: "string option"
  q_assetType :: "AssetType option"
  q_fromDate :: "int option"
  q_toDate :: "int option"
  q_limit :: "nat option"
  q_offset :: "nat option"


record OrderStatistics =
  totalOrders :: nat
  stat_ordersByType :: "(OrderType \<times> nat) list"
  stat_ordersByAssetType :: "(AssetType \<times> nat) list"
  uniqueSymbols :: nat
  totalVolume :: rat
  averageOrderSize :: rat

record StatsCache =
  cache_data :: OrderStatistics
  cache_timestamp :: int
  cache_ttl :: int

text \<open>
  A JavaScript \<open>Map\<close> is an association list in insertion order with one entry per key
  (\<open>get\<close> is \<open>map_of\<close>, \<open>set\<close> is \<open>AList.update\<close>, \<open>size\<close> is the length); a \<open>Set\<close> of
  order ids is a list in insertion order without repetition.
\<close>

type_synonym id_set = "string list"

type_synonym 'k index = "('k \<times> id_set) list"

record OrderRepository =
  orders :: "(string \<times> Order) list"
  ordersByType :: "OrderType index"
  ordersBySymbol :: "string index"
  ordersByAssetType :: "AssetType index"
  ordersByDate :: "string list"
  statsCache :: "StatsCache option"

definition newRepository :: OrderRepository where
  "newRepository =
     \<lparr> orders = [], ordersByType = [], ordersBySymbol = [], ordersByAssetType = [],
       ordersByDate = [], statsCache = None \<rparr>"

definition set_add :: "string \<Rightarrow> id_set \<Rightarrow> id_set" where
  "set_add x s = (if x \<in> set s then s else s @ [x])"

text \<open>
  \<open>if (!index.has(k)) index.set(k, new Set()); index.get(k).add(id)\<close>
\<close>

definition index_add :: "'k \<Rightarrow> string \<Rightarrow> 'k index \<Rightarrow> 'k index" where
  "index_add k i idx =
     (let idx' = (if map_of idx k = None then AList.update k [] idx else idx)
      in case map_of idx' k of
           None \<Rightarrow> idx'
         | Some s \<Rightarrow> AList.update k (set_add i s) idx')"

definition save :: "Order \<Rightarrow> OrderRepository \<Rightarrow> Order \<times> OrderRepository" where
  "save order st =
     (let orders' = AList.update (orderId order) order (orders st);
          byType = index_add (orderType order) (orderId order) (ordersByType st);
          (bySymbol, byAssetType) =
            fold (\<lambda>asset (sidx, aidx).
                    (index_add (ao_symbol asset) (orderId order) sidx,
                     (case ao_type asset of
                        None \<Rightarrow> aidx
                      | Some t \<Rightarrow> index_add t (orderId order) aidx)))
                 (assetOrders order) (ordersBySymbol st, ordersByAssetType st)
      in (order,
          \<lparr> orders = orders', ordersByType = byType, ordersBySymbol = bySymbol,
            ordersByAssetType = byAssetType,
            ordersByDate = ordersByDate st @ [orderId order],
            statsCache = None \<rparr>))"

definition findById :: "string \<Rightarrow> OrderRepository \<Rightarrow> Order option" where
  "findById oid st = map_of (orders st) oid"

definition findByIdOrThrow :: "string \<Rightarrow> OrderRepository \<Rightarrow> error + Order" where
  "findByIdOrThrow oid st =
     (case findById oid st of None \<Rightarrow> Inl (OrderNotFoundError oid) | Some order \<Rightarrow> Inr order)"



datatype SortDirection = Asc | Desc


text \<open>
  \<open>Array.prototype.sort\<close> is stable: elements that the comparator does not separate keep
  their order. For a comparator that is an order, the result is the one a stable
  insertion sort computes.
\<close>

fun insertBy :: "('a \<Rightarrow> 'a \<Rightarrow> int) \<Rightarrow> 'a \<Rightarrow> 'a list \<Rightarrow> 'a list" where
  "insertBy cmp x [] = [x]"
| "insertBy cmp x (y # ys) = (if cmp x y \<le> 0 then x # y # ys else y # insertBy cmp x ys)"

definition stableSort :: "('a \<Rightarrow> 'a \<Rightarrow> int) \<Rightarrow> 'a list \<Rightarrow> 'a list" where
  "stableSort cmp xs = foldr (insertBy cmp) xs []"










text \<open>The statistics that \<open>getStats\<close> computes when it does not answer from the cache.\<close>

definition computeStats :: "OrderRepository \<Rightarrow> OrderStatistics" where
  "computeStats st =
     (let byType = map (\<lambda>(t, orderIds). (t, length orderIds)) (ordersByType st);
          byAssetType = map (\<lambda>(t, orderIds). (t, length orderIds)) (ordersByAssetType st);
          volume = fold (\<lambda>(_, order) v. v + totalAmount order) (orders st) 0
      in \<lparr> totalOrders = length (orders st),
           stat_ordersByType = byType,
           stat_ordersByAssetType = byAssetType,
           uniqueSymbols = length (ordersBySymbol st),
           totalVolume = volume,
           averageOrderSize =
             (if length (orders st) > 0 then volume / of_nat (length (orders st)) else 0) \<rparr>)"

text \<open>\<open>now\<close> is what \<open>Date.now()\<close> returns when the call starts.\<close>

definition getStats :: "int \<Rightarrow> OrderRepository \<Rightarrow> OrderStatistics \<times> OrderRepository" where
  "getStats now st =
     (case statsCache st of
        Some c \<Rightarrow>
          if now - cache_timestamp c < cache_ttl c then (cache_data c, st)
          else (let stats = computeStats st
                in (stats, st\<lparr>statsCache :=
                      Some \<lparr> cache_data = stats, cache_timestamp = now, cache_ttl = 60000 \<rparr>\<rparr>))
      | None \<Rightarrow>
          (let stats = computeStats st
           in (stats, st\<lparr>statsCache :=
                 Some \<lparr> cache_data = stats, cache_timestamp = now, cache_ttl = 60000 \<rparr>\<rparr>)))"

definition clear :: "OrderRepository \<Rightarrow> OrderRepository" where
  "clear st =
     \<lparr> orders = [], ordersByType = [], ordersBySymbol = [], ordersByAssetType = [],
       ordersByDate = [], statsCache = None \<rparr>"

subsection \<open>Operation sequences\<close>

text \<open>
  The public operations of the repository as state transformers. The two lookups write
  no field. An insert is taken with an order id that the primary map does not hold,
  as ids come from a unique-id generator.
\<close>

datatype operation =
    Save Order
  | FindById string
  | FindAll OrderQueryParams
  | GetStats int
  | Clear

fun step :: "operation \<Rightarrow> OrderRepository \<Rightarrow> OrderRepository" where
  "step (Save order) st = snd (save order st)"
| "step (FindById oid) st = st"
| "step (FindAll params) st = st"
| "step (GetStats now) st = snd (getStats now st)"
| "step Clear st = clear st"

fun allowed :: "operation \<Rightarrow> OrderRepository \<Rightarrow> bool" where
  "allowed (Save order) st = (map_of (orders st) (orderId order) = None)"
| "allowed _ st = True"

inductive reachable :: "OrderRepository \<Rightarrow> bool" where
  reachable_new: "reachable newRepository"
| reachable_step: "reachable st \<Longrightarrow> allowed op st \<Longrightarrow> reachable (step op st)"

subsection \<open>What a query asks for\<close>



text \<open>The members of the index set under a key; no entry, no members.\<close>

definition index_ids :: "'k index \<Rightarrow> 'k \<Rightarrow> string set" where
  "index_ids idx k = (case map_of idx k of None \<Rightarrow> {} | Some s \<Rightarrow> set s)"

section \<open>The market service (services/market.service.js)\<close>

text \<open>
  A luxon \<open>DateTime\<close> in the market's zone is read as a local calendar day, counted in
  days from 1970-01-01, and the milliseconds since local midnight. \<open>weekday\<close> is the
  ISO weekday (1 is Monday, 7 is Sunday), \<open>toISODate\<close> the civil date (year, month, day)
  of the day count, \<open>valueOf\<close> the position on the local time line that comparisons of
  two values use. The zone's clock changes happen in the night, away from the opening
  and closing times, so the comparisons of the source against 09:30 and 16:00 of the
  same day are comparisons of local times.
\<close>

record DateTime =
  epochDay :: int
  msOfDay :: int

definition weekday :: "DateTime \<Rightarrow> int" where
  "weekday dt = (epochDay dt + 3) mod 7 + 1"

definition civil_from_days :: "int \<Rightarrow> int \<times> int \<times> int" where
  "civil_from_days z0 =
     (let z = z0 + 719468;
          era = z div 146097;
          doe = z - era * 146097;
          yoe = (doe - doe div 1460 + doe div 36524 - doe div 146096) div 365;
          y = yoe + era * 400;
          doy = doe - (365 * yoe + yoe div 4 - yoe div 100);
          mp = (5 * doy + 2) div 153;
          d = doy - (153 * mp + 2) div 5 + 1;
          m = (if mp < 10 then mp + 3 else mp - 9)
      in (if m \<le> 2 then y + 1 else y, m, d))"

definition toISODate :: "DateTime \<Rightarrow> int \<times> int \<times> int" where
  "toISODate dt = civil_from_days (epochDay dt)"

definition valueOf :: "DateTime \<Rightarrow> int" where
  "valueOf dt = epochDay dt * 86400000 + msOfDay dt"

text \<open>\<open>dt.set({hour: h, minute: m, second: 0, millisecond: 0})\<close> and \<open>dt.plus({days: n})\<close>.\<close>

definition setTime :: "DateTime \<Rightarrow> int \<Rightarrow> int \<Rightarrow> DateTime" where
  "setTime dt h m = dt\<lparr>msOfDay := (h * 60 + m) * 60000\<rparr>"

definition plusDays :: "DateTime \<Rightarrow> int \<Rightarrow> DateTime" where
  "plusDays dt n = dt\<lparr>epochDay := epochDay dt + n\<rparr>"

definition MARKET_HOLIDAYS_2025 :: "(int \<times> int \<times> int) list" where
  "MARKET_HOLIDAYS_2025 =
     [(2025, 1, 1), (2025, 1, 20), (2025, 2, 17), (2025, 4, 18), (2025, 5, 26),
      (2025, 6, 19), (2025, 7, 4), (2025, 9, 1), (2025, 11, 27), (2025, 12, 25)]"

definition isTradingDay :: "DateTime \<Rightarrow> bool" where
  "isTradingDay date = (weekday date \<in> set TRADING_DAYS)"

definition isHoliday :: "DateTime \<Rightarrow> bool" where
  "isHoliday date = (toISODate date \<in> set MARKET_HOLIDAYS_2025)"

definition isWithinTradingHours :: "DateTime \<Rightarrow> bool" where
  "isWithinTradingHours date =
     (let marketOpen = setTime date MARKET_OPEN_HOUR MARKET_OPEN_MINUTE;
          marketClose = setTime date MARKET_CLOSE_HOUR MARKET_CLOSE_MINUTE
      in valueOf date \<ge> valueOf marketOpen \<and> valueOf date < valueOf marketClose)"

definition isMarketOpen :: "DateTime \<Rightarrow> bool" where
  "isMarketOpen now =
     (if \<not> isTradingDay now then False
      else if isHoliday now then False
      else if \<not> isWithinTradingHours now then False
      else True)"

definition getNextMarketOpen :: "DateTime \<Rightarrow> DateTime" where
  "getNextMarketOpen current =
     (let todayOpen = setTime current MARKET_OPEN_HOUR MARKET_OPEN_MINUTE
      in if valueOf current < valueOf todayOpen \<and> isTradingDay current \<and> \<not> isHoliday current
         then todayOpen
         else setTime (plusDays current 1) MARKET_OPEN_HOUR MARKET_OPEN_MINUTE)"

function getNextMonday_loop :: "DateTime \<Rightarrow> DateTime" where
  "getNextMonday_loop next =
     (if weekday next \<noteq> 1 then getNextMonday_loop (plusDays next 1) else next)"
  by pat_completeness auto
termination
proof (relation "measure (\<lambda>dt. nat (6 - (epochDay dt + 2) mod 7))")
  show "wf (measure (\<lambda>dt. nat (6 - (epochDay dt + 2) mod 7)))"
    by simp
next
  fix dt :: DateTime
  assume "weekday dt \<noteq> 1"
  then have "(epochDay dt + 3) mod 7 \<noteq> 0"
    by (simp add: weekday_def)
  then have "(epochDay dt + 2) mod 7 < (epochDay dt + 1 + 2) mod 7"
    by presburger
  moreover have "(epochDay dt + 1 + 2) mod 7 \<le> 6"
    by presburger
  ultimately show "(plusDays dt 1, dt) \<in> measure (\<lambda>dt. nat (6 - (epochDay dt + 2) mod 7))"
    by (simp add: plusDays_def)
qed

definition getNextMonday :: "DateTime \<Rightarrow> DateTime" where
  "getNextMonday current =
     setTime (getNextMonday_loop current) MARKET_OPEN_HOUR MARKET_OPEN_MINUTE"

text \<open>
  The \<open>while (attempts < maxAttempts)\<close> loop of \<open>getNextTradingTime\<close>; the first
  argument is the number of attempts left, 30 at the start.
\<close>

fun scanForward :: "nat \<Rightarrow> DateTime \<Rightarrow> DateTime" where
  "scanForward 0 current = getNextMonday current"
| "scanForward (Suc n) current =
     (if isTradingDay current \<and> \<not> isHoliday current then current
      else scanForward n (setTime (plusDays current 1) MARKET_OPEN_HOUR MARKET_OPEN_MINUTE))"

definition getNextTradingTime :: "DateTime \<Rightarrow> DateTime" where
  "getNextTradingTime timestamp =
     (if isMarketOpen timestamp then timestamp
      else scanForward 30 (getNextMarketOpen timestamp))"

section \<open>Invariants of the repository\<close>

text \<open>
  The id sets of an index hold no id twice; the indexes and the insertion-ordered list are
  the views of the primary map; a cache that is set holds the statistics of the state.
  \<open>filter_ids\<close> is the set of ids that one filter admits: all of them when the filter is
  not supplied, the members of the index entry otherwise.
\<close>

definition index_distinct :: "'k index \<Rightarrow> bool" where
  "index_distinct idx = (\<forall>k s. map_of idx k = Some s \<longrightarrow> distinct s)"

definition repo_inv :: "OrderRepository \<Rightarrow> bool" where
  "repo_inv st \<longleftrightarrow>
     distinct (map fst (orders st)) \<and>
     (\<forall>i order. map_of (orders st) i = Some order \<longrightarrow> orderId order = i) \<and>
     ordersByDate st = map fst (orders st) \<and>
     (\<forall>k. index_ids (ordersByType st) k =
            {i. \<exists>order. map_of (orders st) i = Some order \<and> orderType order = k}) \<and>
     (\<forall>k. index_ids (ordersBySymbol st) k =
            {i. \<exists>order. map_of (orders st) i = Some order \<and>
                  k \<in> ao_symbol ` set (assetOrders order)}) \<and>
     (\<forall>k. index_ids (ordersByAssetType st) k =
            {i. \<exists>order. map_of (orders st) i = Some order \<and>
                  Some k \<in> ao_type ` set (assetOrders order)}) \<and>
     index_distinct (ordersByType st) \<and>
     index_distinct (ordersBySymbol st) \<and>
     index_distinct (ordersByAssetType st)"

definition cache_fresh :: "OrderRepository \<Rightarrow> bool" where
  "cache_fresh st =
     (case statsCache st of None \<Rightarrow> True | Some c \<Rightarrow> cache_data c = computeStats st)"


section \<open>Sample inputs\<close>

subsection \<open>Requests\<close>

definition percentAsset :: "string \<Rightarrow> rat \<Rightarrow> PortfolioAsset" where
  "percentAsset s p =
     \<lparr> pa_symbol = s, pa_type = None, pa_allocation = Some p, pa_amount = None,
       pa_price = None \<rparr>"


definition scenarioA_assets :: "PortfolioAsset list" where
  "scenarioA_assets =
     [\<lparr> pa_symbol = ''AAPL'', pa_type = None, pa_allocation = Some 40, pa_amount = None,
        pa_price = None \<rparr>,
      \<lparr> pa_symbol = ''BTC'', pa_type = None, pa_allocation = Some 30, pa_amount = None,
        pa_price = Some 45000 \<rparr>,
      \<lparr> pa_symbol = ''GOLD'', pa_type = None, pa_allocation = Some 20, pa_amount = None,
        pa_price = Some 2000 \<rparr>,
      \<lparr> pa_symbol = ''SPY'', pa_type = None, pa_allocation = Some 10, pa_amount = None,
        pa_price = None \<rparr>]"

definition scenarioA_request :: CreateOrderRequest where
  "scenarioA_request =
     \<lparr> req_orderType = BUY, req_amount = Some 10000, req_assets = scenarioA_assets \<rparr>"

definition scenarioA_lines :: "AssetOrder list" where
  "scenarioA_lines =
     [\<lparr> ao_symbol = ''AAPL'', ao_type = None, ao_allocation = 40, ao_price = 100,
        ao_amount = 4000, ao_shares = 40, ao_totalCost = 4000 \<rparr>,
      \<lparr> ao_symbol = ''BTC'', ao_type = None, ao_allocation = 30, ao_price = 45000,
        ao_amount = 3000, ao_shares = 67 / 1000, ao_totalCost = 3015 \<rparr>,
      \<lparr> ao_symbol = ''GOLD'', ao_type = None, ao_allocation = 20, ao_price = 2000,
        ao_amount = 2000, ao_shares = 1, ao_totalCost = 2000 \<rparr>,
      \<lparr> ao_symbol = ''SPY'', ao_type = None, ao_allocation = 10, ao_price = 100,
        ao_amount = 1000, ao_shares = 10, ao_totalCost = 1000 \<rparr>]"







subsection \<open>Instants\<close>

text \<open>A clock reading as milliseconds since midnight; Thursday 2025-01-02 at noon.\<close>

definition timeOfDay :: "int \<Rightarrow> int \<Rightarrow> int" where
  "timeOfDay h m = (h * 60 + m) * 60000"

definition openInstant :: DateTime where
  "openInstant = \<lparr> epochDay = 20090, msOfDay = timeOfDay 12 0 \<rparr>"

subsection \<open>Stores and queries\<close>

text \<open>
  \<open>sampleStore n\<close> is the store after the inserts of \<open>n\<close> orders with the ids
  \<open>o\<close>, \<open>oo\<close>, \<open>ooo\<close> and so on.
\<close>

definition sampleAssetOrder :: "string \<Rightarrow> AssetType option \<Rightarrow> AssetOrder" where
  "sampleAssetOrder s t =
     \<lparr> ao_symbol = s, ao_type = t, ao_allocation = 100, ao_price = 100, ao_amount = 100,
       ao_shares = 1, ao_totalCost = 100 \<rparr>"

definition sampleOrder :: "nat \<Rightarrow> Order" where
  "sampleOrder n =
     \<lparr> orderId = replicate (Suc n) CHR ''o'',
       orderType = (if even n then BUY else SELL),
       totalAmount = 100,
       portfolio = [percentAsset ''BTC'' 100],
       assetOrders = [sampleAssetOrder ''BTC'' (Some Crypto)],
       executionTime = [], canExecuteNow = True, nextAvailableTime = None,
       createdAt = int n, decimalPrecision = 3, mode = Allocation \<rparr>"

fun sampleStore :: "nat \<Rightarrow> OrderRepository" where
  "sampleStore 0 = newRepository"
| "sampleStore (Suc n) = step (Save (sampleOrder n)) (sampleStore n)"

definition cachedStore :: OrderRepository where
  "cachedStore = step (GetStats 1000) (sampleStore (Suc 0))"




section \<open>Properties of the splitting engine\<close>

subsection \<open>Rounding, sums and the loop\<close>


lemma floor_rat_divide_numeral:
  "\<lfloor>numeral a / numeral b :: rat\<rfloor> = numeral a div numeral b"
  by (metis floor_divide_of_int_eq of_int_numeral)

lemma floor_rat_one_divide_numeral:
  "\<lfloor>1 / numeral b :: rat\<rfloor> = 1 div numeral b"
  by (metis floor_divide_of_int_eq of_int_1 of_int_numeral)








subsection \<open>The remainder goes to the last asset\<close>



subsection \<open>Mode detection\<close>





subsection \<open>Amounts, percentages and amounts again\<close>









subsection \<open>The four-asset scenario\<close>

lemma scenarioA_loop: "calculateLoop scenarioA_assets 10000 3 0 = scenarioA_lines"
  by (simp add: scenarioA_assets_def scenarioA_lines_def Let_def roundToDecimal_def
      Math_round_def priceOrDefault_def or0_def DEFAULT_ASSET_PRICE_def
      floor_rat_divide_numeral floor_rat_one_divide_numeral)

lemma scenarioA_calculate:
  "calculateAssetOrders scenarioA_assets 10000 3 =
     (scenarioA_lines, [RoundingWarning 10000 10015 15 4])"
  by (simp add: calculateAssetOrders_def scenarioA_loop Let_def)
     (simp add: scenarioA_lines_def)

lemma scenarioA_validate: "validatePortfolio scenarioA_assets = Inr ()"
  by (simp add: validatePortfolio_def scenarioA_assets_def or0_def)

lemma scenarioA_prepare:
  "prepareOrderData scenarioA_request = Inr (Allocation, 10000, scenarioA_assets)"
  by (simp add: prepareOrderData_def scenarioA_request_def scenarioA_assets_def)

lemma scenarioA_splitOrder:
  "splitOrder scenarioA_request 3 =
     Inr (Allocation, 10000, scenarioA_assets, scenarioA_lines,
          [RoundingWarning 10000 10015 15 4])"
  by (simp add: splitOrder_def scenarioA_prepare scenarioA_validate scenarioA_calculate)

text \<open>
  C4 (as the code has it). For side BUY, total 10000 and the assets AAPL 40, BTC 30 at
  45000, GOLD 20 at 2000, SPY 10, with default price 100 and share precision 3, the
  split gives AAPL 40 units at cost 4000, BTC 0.067 units at cost 3015, GOLD 1 unit at
  cost 2000 and SPY 10 units at cost 1000. The dollar amounts sum to 10000; the costs
  sum to 10015, which is 15 away from the total, and the split logs the rounding
  warning and does not fail.
\<close>

theorem scenarioA_result:
  "splitOrder scenarioA_request DEFAULT_DECIMAL_PRECISION =
     Inr (Allocation, 10000, scenarioA_assets, scenarioA_lines,
          [RoundingWarning 10000 10015 15 4]) \<and>
   map ao_symbol scenarioA_lines = [''AAPL'', ''BTC'', ''GOLD'', ''SPY''] \<and>
   map ao_shares scenarioA_lines = [40, 67 / 1000, 1, 10] \<and>
   map ao_totalCost scenarioA_lines = [4000, 3015, 2000, 1000] \<and>
   sum_list (map ao_amount scenarioA_lines) = 10000 \<and>
   sum_list (map ao_totalCost scenarioA_lines) = 10015"
  by (simp add: DEFAULT_DECIMAL_PRECISION_def scenarioA_splitOrder)
     (simp add: scenarioA_lines_def)

text \<open>
  C4 as stated asks the costs of these lines to sum to 10000 within 0.01; they do not.
\<close>

theorem scenarioA_costs_off_by_15:
  "\<not> (\<exists>lines logs.
         splitOrder scenarioA_request DEFAULT_DECIMAL_PRECISION =
           Inr (Allocation, 10000, scenarioA_assets, lines, logs) \<and>
         map ao_shares lines = [40, 67 / 1000, 1, 10] \<and>
         map ao_totalCost lines = [4000, 3015, 2000, 1000] \<and>
         \<bar>sum_list (map ao_totalCost lines) - 10000\<bar> \<le> 1 / 100)"
proof
  assume "\<exists>lines logs.
         splitOrder scenarioA_request DEFAULT_DECIMAL_PRECISION =
           Inr (Allocation, 10000, scenarioA_assets, lines, logs) \<and>
         map ao_shares lines = [40, 67 / 1000, 1, 10] \<and>
         map ao_totalCost lines = [4000, 3015, 2000, 1000] \<and>
         \<bar>sum_list (map ao_totalCost lines) - 10000\<bar> \<le> 1 / 100"
  then obtain lines :: "AssetOrder list"
    where "map ao_totalCost lines = [4000, 3015, 2000, 1000]"
      and "\<bar>sum_list (map ao_totalCost lines) - 10000\<bar> \<le> 1 / 100"
    by auto
  then show False by simp
qed

subsection \<open>Validation\<close>



section \<open>Properties of the market service\<close>

lemma isTradingDay_iff: "isTradingDay t \<longleftrightarrow> weekday t \<noteq> 6 \<and> weekday t \<noteq> 7"
proof -
  have "1 \<le> weekday t \<and> weekday t \<le> 7"
    unfolding weekday_def by presburger
  then show ?thesis
    unfolding isTradingDay_def TRADING_DAYS_def by auto
qed

lemma isWithinTradingHours_iff:
  "isWithinTradingHours t \<longleftrightarrow> timeOfDay 9 30 \<le> msOfDay t \<and> msOfDay t < timeOfDay 16 0"
  by (simp add: isWithinTradingHours_def setTime_def valueOf_def timeOfDay_def Let_def
      MARKET_OPEN_HOUR_def MARKET_OPEN_MINUTE_def MARKET_CLOSE_HOUR_def MARKET_CLOSE_MINUTE_def)

lemma toISODate_openInstant: "toISODate openInstant = (2025, 1, 2)"
  by code_simp

lemma isMarketOpen_openInstant: "isMarketOpen openInstant"
  by (simp add: isMarketOpen_def isTradingDay_def TRADING_DAYS_def isHoliday_def
      toISODate_openInstant MARKET_HOLIDAYS_2025_def isWithinTradingHours_iff)
     (simp add: openInstant_def weekday_def timeOfDay_def)

text \<open>
  C9. The market is open at an instant exactly when its weekday is neither Saturday (6)
  nor Sunday (7), its local date is not in the holiday list, and its local time is in
  [09:30, 16:00); in every other case it is closed.
\<close>

theorem isMarketOpen_iff:
  "isMarketOpen t \<longleftrightarrow>
     weekday t \<noteq> 6 \<and> weekday t \<noteq> 7 \<and>
     toISODate t \<notin> set MARKET_HOLIDAYS_2025 \<and>
     timeOfDay 9 30 \<le> msOfDay t \<and> msOfDay t < timeOfDay 16 0"
  by (simp add: isMarketOpen_def isTradingDay_iff isWithinTradingHours_iff isHoliday_def)

text \<open>
  An open instant (Thursday 2025-01-02 at noon) and four closed ones: the same day at
  16:00 and at 09:29, the holiday 2025-01-01 and Saturday 2025-01-04.
\<close>

theorem isMarketOpen_iff_witness:
  "isMarketOpen openInstant \<and>
   \<not> isMarketOpen (openInstant\<lparr>msOfDay := timeOfDay 16 0\<rparr>) \<and>
   \<not> isMarketOpen (openInstant\<lparr>msOfDay := timeOfDay 9 29\<rparr>) \<and>
   \<not> isMarketOpen (openInstant\<lparr>epochDay := 20089\<rparr>) \<and>
   \<not> isMarketOpen (openInstant\<lparr>epochDay := 20092\<rparr>)"
proof -
  have h: "toISODate (openInstant\<lparr>epochDay := 20089\<rparr>) = (2025, 1, 1)"
    by code_simp
  have w: "weekday (openInstant\<lparr>epochDay := 20092\<rparr>) = 6"
    by (simp add: weekday_def)
  have 1: "isMarketOpen openInstant"
    using isMarketOpen_iff [of openInstant]
    by (simp add: toISODate_openInstant MARKET_HOLIDAYS_2025_def)
       (simp add: openInstant_def weekday_def timeOfDay_def)
  have 2: "\<not> isMarketOpen (openInstant\<lparr>msOfDay := timeOfDay 16 0\<rparr>)"
    using isMarketOpen_iff [of "openInstant\<lparr>msOfDay := timeOfDay 16 0\<rparr>"] by simp
  have 3: "\<not> isMarketOpen (openInstant\<lparr>msOfDay := timeOfDay 9 29\<rparr>)"
    using isMarketOpen_iff [of "openInstant\<lparr>msOfDay := timeOfDay 9 29\<rparr>"]
    by (simp add: timeOfDay_def)
  have 4: "\<not> isMarketOpen (openInstant\<lparr>epochDay := 20089\<rparr>)"
    using isMarketOpen_iff [of "openInstant\<lparr>epochDay := 20089\<rparr>"] h
    by (simp add: MARKET_HOLIDAYS_2025_def)
  have 5: "\<not> isMarketOpen (openInstant\<lparr>epochDay := 20092\<rparr>)"
    using isMarketOpen_iff [of "openInstant\<lparr>epochDay := 20092\<rparr>"] w by simp
  from 1 2 3 4 5 show ?thesis by simp
qed

text \<open>
  C10. The next trading time of an instant at which the market is open is that instant.
\<close>

theorem getNextTradingTime_open:
  "isMarketOpen t \<Longrightarrow> getNextTradingTime t = t"
  by (simp add: getNextTradingTime_def)

text \<open>The open instant is its own next trading time.\<close>

theorem getNextTradingTime_open_witness:
  "isMarketOpen openInstant \<and> getNextTradingTime openInstant = openInstant"
  using getNextTradingTime_open [OF isMarketOpen_openInstant] isMarketOpen_openInstant
  by simp

section \<open>Properties of the order repository\<close>

subsection \<open>Insertion keeps the indexes in step\<close>

lemma set_set_add: "set (set_add x s) = insert x (set s)"
  by (auto simp: set_add_def)

lemma distinct_set_add: "distinct s \<Longrightarrow> distinct (set_add x s)"
  by (simp add: set_add_def)

lemma map_of_index_add:
  "map_of (index_add k i idx) =
     (map_of idx)(k \<mapsto> set_add i (case map_of idx k of None \<Rightarrow> [] | Some s \<Rightarrow> s))"
  by (cases "map_of idx k") (simp_all add: index_add_def Let_def update_conv')

lemma index_ids_index_add:
  "index_ids (index_add k i idx) k' =
     (if k' = k then insert i (index_ids idx k) else index_ids idx k')"
  by (cases "map_of idx k") (simp_all add: index_ids_def map_of_index_add set_set_add)

lemma index_distinct_index_add:
  "index_distinct idx \<Longrightarrow> index_distinct (index_add k i idx)"
  unfolding index_distinct_def map_of_index_add
  by (auto simp: distinct_set_add split: option.splits if_splits)

lemma index_ids_fold_symbol:
  "index_ids (fold (\<lambda>asset. index_add (f asset) i) as idx) k =
     index_ids idx k \<union> (if k \<in> f ` set as then {i} else {})"
  by (induction as arbitrary: idx) (auto simp: index_ids_index_add split: if_splits)

lemma index_ids_fold_type:
  "index_ids (fold (\<lambda>asset idx. case g asset of None \<Rightarrow> idx | Some t \<Rightarrow> index_add t i idx)
                as idx) k =
     index_ids idx k \<union> (if Some k \<in> g ` set as then {i} else {})"
  by (induction as arbitrary: idx)
     (auto simp: index_ids_index_add split: if_splits option.splits)

lemma index_distinct_fold_symbol:
  "index_distinct idx \<Longrightarrow> index_distinct (fold (\<lambda>asset. index_add (f asset) i) as idx)"
  by (induction as arbitrary: idx) (simp_all add: index_distinct_index_add)

lemma index_distinct_fold_type:
  "index_distinct idx \<Longrightarrow>
   index_distinct (fold (\<lambda>asset idx. case g asset of None \<Rightarrow> idx | Some t \<Rightarrow> index_add t i idx)
                     as idx)"
  by (induction as arbitrary: idx) (simp_all add: index_distinct_index_add split: option.splits)

lemma fold_pair_split:
  "fold (\<lambda>asset (sidx, aidx). (F asset sidx, G asset aidx)) as (s, a) =
     (fold F as s, fold G as a)"
  by (induction as arbitrary: s a) simp_all

lemma save_state:
  "snd (save order st) =
     \<lparr> orders = AList.update (orderId order) order (orders st),
       ordersByType = index_add (orderType order) (orderId order) (ordersByType st),
       ordersBySymbol =
         fold (\<lambda>asset. index_add (ao_symbol asset) (orderId order)) (assetOrders order)
           (ordersBySymbol st),
       ordersByAssetType =
         fold (\<lambda>asset idx. case ao_type asset of None \<Rightarrow> idx
                            | Some t \<Rightarrow> index_add t (orderId order) idx)
           (assetOrders order) (ordersByAssetType st),
       ordersByDate = ordersByDate st @ [orderId order],
       statsCache = None \<rparr>"
  by (simp add: save_def Let_def fold_pair_split)

lemma map_of_None_keys: "map_of al k = None \<Longrightarrow> k \<notin> set (map fst al)"
  by (simp add: map_of_eq_None_iff)

lemma repo_inv_new: "repo_inv newRepository"
  by (simp add: repo_inv_def newRepository_def index_ids_def index_distinct_def)

lemma repo_inv_clear: "repo_inv (clear st)"
  by (simp add: repo_inv_def clear_def index_ids_def index_distinct_def)

lemma repo_inv_statsCache: "repo_inv (st\<lparr>statsCache := c\<rparr>) = repo_inv st"
  by (simp add: repo_inv_def)

lemma repo_inv_getStats: "repo_inv st \<Longrightarrow> repo_inv (snd (getStats now st))"
  by (simp add: getStats_def Let_def repo_inv_statsCache split: option.splits)

lemma index_step:
  assumes "\<And>k. index_ids idx k = {j. \<exists>ord. m j = Some ord \<and> P k ord}"
    and "m i = None"
    and "\<And>k. index_ids idx' k = index_ids idx k \<union> (if P k v then {i} else {})"
  shows "index_ids idx' k = {j. \<exists>ord. (m(i \<mapsto> v)) j = Some ord \<and> P k ord}"
  unfolding assms(3) assms(1) using assms(2) by auto

lemma repo_inv_save:
  assumes inv: "repo_inv st" and new: "map_of (orders st) (orderId order) = None"
  shows "repo_inv (snd (save order st))"
proof -
  let ?i = "orderId order"
  have notin: "?i \<notin> set (map fst (orders st))"
    using new by (rule map_of_None_keys)
  have d: "distinct (map fst (orders st))"
    and o: "\<forall>i ord. map_of (orders st) i = Some ord \<longrightarrow> orderId ord = i"
    and bd: "ordersByDate st = map fst (orders st)"
    and t: "\<And>k. index_ids (ordersByType st) k =
            {i. \<exists>ord. map_of (orders st) i = Some ord \<and> orderType ord = k}"
    and s: "\<And>k. index_ids (ordersBySymbol st) k =
            {i. \<exists>ord. map_of (orders st) i = Some ord \<and>
                  k \<in> ao_symbol ` set (assetOrders ord)}"
    and a: "\<And>k. index_ids (ordersByAssetType st) k =
            {i. \<exists>ord. map_of (orders st) i = Some ord \<and>
                  Some k \<in> ao_type ` set (assetOrders ord)}"
    and dt: "index_distinct (ordersByType st)"
    and ds: "index_distinct (ordersBySymbol st)"
    and da: "index_distinct (ordersByAssetType st)"
    using inv unfolding repo_inv_def by simp_all
  have 1: "distinct (map fst (AList.update ?i order (orders st)))"
    using d by (rule distinct_update)
  have 2: "\<forall>i ord. map_of (AList.update ?i order (orders st)) i = Some ord \<longrightarrow> orderId ord = i"
    using o by (simp add: update_conv')
  have 3: "ordersByDate st @ [?i] = map fst (AList.update ?i order (orders st))"
    using bd notin by (simp add: update_keys)
  have 4: "index_ids (index_add (orderType order) ?i (ordersByType st)) k =
      {i. \<exists>ord. map_of (AList.update ?i order (orders st)) i = Some ord \<and> orderType ord = k}"
    for k
    unfolding update_conv'
    by (rule index_step [where P = "\<lambda>k ord. orderType ord = k", OF t new])
       (auto simp: index_ids_index_add)
  have 5: "index_ids (fold (\<lambda>asset. index_add (ao_symbol asset) ?i) (assetOrders order)
                        (ordersBySymbol st)) k =
      {i. \<exists>ord. map_of (AList.update ?i order (orders st)) i = Some ord \<and>
              k \<in> ao_symbol ` set (assetOrders ord)}" for k
    unfolding update_conv'
    by (rule index_step [where P = "\<lambda>k ord. k \<in> ao_symbol ` set (assetOrders ord)", OF s new])
       (rule index_ids_fold_symbol)
  have 6: "index_ids (fold (\<lambda>asset idx. case ao_type asset of None \<Rightarrow> idx
                            | Some t \<Rightarrow> index_add t ?i idx)
                        (assetOrders order) (ordersByAssetType st)) k =
      {i. \<exists>ord. map_of (AList.update ?i order (orders st)) i = Some ord \<and>
              Some k \<in> ao_type ` set (assetOrders ord)}" for k
    unfolding update_conv'
    by (rule index_step [where P = "\<lambda>k ord. Some k \<in> ao_type ` set (assetOrders ord)", OF a new])
       (rule index_ids_fold_type)
  have 7: "index_distinct (index_add (orderType order) ?i (ordersByType st))"
    using dt by (rule index_distinct_index_add)
  have 8: "index_distinct (fold (\<lambda>asset. index_add (ao_symbol asset) ?i) (assetOrders order)
                        (ordersBySymbol st))"
    using ds by (rule index_distinct_fold_symbol)
  have 9: "index_distinct (fold (\<lambda>asset idx. case ao_type asset of None \<Rightarrow> idx
                            | Some t \<Rightarrow> index_add t ?i idx)
                        (assetOrders order) (ordersByAssetType st))"
    using da by (rule index_distinct_fold_type)
  have fields:
    "orders (snd (save order st)) = AList.update ?i order (orders st)"
    "ordersByType (snd (save order st)) = index_add (orderType order) ?i (ordersByType st)"
    "ordersBySymbol (snd (save order st)) =
       fold (\<lambda>asset. index_add (ao_symbol asset) ?i) (assetOrders order) (ordersBySymbol st)"
    "ordersByAssetType (snd (save order st)) =
       fold (\<lambda>asset idx. case ao_type asset of None \<Rightarrow> idx
                            | Some t \<Rightarrow> index_add t ?i idx)
         (assetOrders order) (ordersByAssetType st)"
    "ordersByDate (snd (save order st)) = ordersByDate st @ [?i]"
    by (simp_all add: save_state)
  show ?thesis
    unfolding repo_inv_def fields
    using 1 2 3 4 5 6 7 8 9 by blast
qed

lemma reachable_inv: "reachable st \<Longrightarrow> repo_inv st"
proof (induction rule: reachable.induct)
  case reachable_new
  show ?case by (rule repo_inv_new)
next
  case (reachable_step st op)
  then show ?case
    by (cases op) (simp_all add: repo_inv_save repo_inv_getStats repo_inv_clear)
qed

lemma sampleStore_keys:
  "map fst (orders (sampleStore n)) = map (\<lambda>k. replicate (Suc k) CHR ''o'') [0..<n]"
proof (induction n)
  case 0
  show ?case by (simp add: newRepository_def)
next
  case (Suc n)
  have "replicate (Suc n) CHR ''o'' \<notin> (\<lambda>k. replicate (Suc k) CHR ''o'') ` {0..<n}"
  proof
    assume "replicate (Suc n) CHR ''o'' \<in> (\<lambda>k. replicate (Suc k) CHR ''o'') ` {0..<n}"
    then obtain k where "k < n" "replicate (Suc n) CHR ''o'' = replicate (Suc k) CHR ''o''"
      by auto
    then have "length (replicate (Suc n) CHR ''o'') = length (replicate (Suc k) CHR ''o'')"
      by simp
    with \<open>k < n\<close> show False by simp
  qed
  then show ?case
    using Suc by (simp add: save_state update_keys sampleOrder_def)
qed

lemma sampleStore_new:
  "map_of (orders (sampleStore n)) (orderId (sampleOrder n)) = None"
proof -
  have "replicate (Suc n) CHR ''o'' \<notin> set (map fst (orders (sampleStore n)))"
  proof
    assume "replicate (Suc n) CHR ''o'' \<in> set (map fst (orders (sampleStore n)))"
    then obtain k where "k < n" "replicate (Suc n) CHR ''o'' = replicate (Suc k) CHR ''o''"
      unfolding sampleStore_keys by auto
    then have "length (replicate (Suc n) CHR ''o'') = length (replicate (Suc k) CHR ''o'')"
      by simp
    with \<open>k < n\<close> show False by simp
  qed
  then show ?thesis
    by (simp add: map_of_eq_None_iff sampleOrder_def)
qed

lemma reachable_sampleStore: "reachable (sampleStore n)"
proof (induction n)
  case 0
  show ?case by (simp add: reachable_new)
next
  case (Suc n)
  have "allowed (Save (sampleOrder n)) (sampleStore n)"
    by (simp add: sampleStore_new)
  with Suc have "reachable (step (Save (sampleOrder n)) (sampleStore n))"
    by (rule reachable_step)
  then show ?case by simp
qed


lemma sampleStore_1:
  "sampleStore (Suc 0) =
     \<lparr> orders = [(''o'', sampleOrder 0)],
       ordersByType = [(BUY, [''o''])],
       ordersBySymbol = [(''BTC'', [''o''])],
       ordersByAssetType = [(Crypto, [''o''])],
       ordersByDate = [''o''],
       statsCache = None \<rparr>"
  by (simp add: save_state newRepository_def sampleOrder_def sampleAssetOrder_def
      index_add_def set_add_def)

lemma ex_with_id:
  assumes "\<And>ord. m i = Some ord \<Longrightarrow> f ord = i"
  shows "(\<exists>ord. m i = Some ord \<and> P ord) \<longleftrightarrow> (\<exists>ord. m i = Some ord \<and> f ord = i \<and> P ord)"
  using assms by blast

lemma image_eq_ex: "k \<in> f ` A \<longleftrightarrow> (\<exists>x\<in>A. f x = k)"
  by auto

text \<open>
  C7. In every state reached by inserts of orders with new ids, lookups, queries,
  statistics calls and resets, the secondary indexes are the views of the primary map:
  an id is in the side index under a key exactly when the primary map holds an order
  with that id and that side, in the symbol (asset class) index under a key exactly when
  that order has an asset line with that symbol (asset class), and the insertion-ordered
  list holds exactly the ids of the primary map, each once.
\<close>

theorem indexes_are_views_of_primary:
  assumes "reachable st"
  shows "(\<forall>k i. i \<in> index_ids (ordersByType st) k \<longleftrightarrow>
            (\<exists>order. findById i st = Some order \<and> orderId order = i \<and> orderType order = k)) \<and>
         (\<forall>k i. i \<in> index_ids (ordersBySymbol st) k \<longleftrightarrow>
            (\<exists>order. findById i st = Some order \<and> orderId order = i \<and>
               (\<exists>line \<in> set (assetOrders order). ao_symbol line = k))) \<and>
         (\<forall>k i. i \<in> index_ids (ordersByAssetType st) k \<longleftrightarrow>
            (\<exists>order. findById i st = Some order \<and> orderId order = i \<and>
               (\<exists>line \<in> set (assetOrders order). ao_type line = Some k))) \<and>
         set (ordersByDate st) = {i. findById i st \<noteq> None} \<and>
         distinct (ordersByDate st)"
proof -
  have inv: "repo_inv st"
    using assms by (rule reachable_inv)
  have d: "distinct (map fst (orders st))"
    and o: "\<And>i ord. map_of (orders st) i = Some ord \<Longrightarrow> orderId ord = i"
    and bd: "ordersByDate st = map fst (orders st)"
    and t: "\<And>k. index_ids (ordersByType st) k =
            {i. \<exists>ord. map_of (orders st) i = Some ord \<and> orderType ord = k}"
    and s: "\<And>k. index_ids (ordersBySymbol st) k =
            {i. \<exists>ord. map_of (orders st) i = Some ord \<and>
                  k \<in> ao_symbol ` set (assetOrders ord)}"
    and a: "\<And>k. index_ids (ordersByAssetType st) k =
            {i. \<exists>ord. map_of (orders st) i = Some ord \<and>
                  Some k \<in> ao_type ` set (assetOrders ord)}"
    using inv unfolding repo_inv_def by simp_all
  have 1: "i \<in> index_ids (ordersByType st) k \<longleftrightarrow>
            (\<exists>order. findById i st = Some order \<and> orderId order = i \<and> orderType order = k)"
    for i k
    unfolding t findById_def mem_Collect_eq
    by (rule ex_with_id) (rule o)
  have 2: "i \<in> index_ids (ordersBySymbol st) k \<longleftrightarrow>
            (\<exists>order. findById i st = Some order \<and> orderId order = i \<and>
               (\<exists>line \<in> set (assetOrders order). ao_symbol line = k))" for i k
    unfolding s findById_def mem_Collect_eq image_eq_ex
    by (rule ex_with_id) (rule o)
  have 3: "i \<in> index_ids (ordersByAssetType st) k \<longleftrightarrow>
            (\<exists>order. findById i st = Some order \<and> orderId order = i \<and>
               (\<exists>line \<in> set (assetOrders order). ao_type line = Some k))" for i k
    unfolding a findById_def mem_Collect_eq image_eq_ex
    by (rule ex_with_id) (rule o)
  have 4: "set (ordersByDate st) = {i. findById i st \<noteq> None}"
    unfolding bd findById_def by (simp add: map_of_eq_None_iff set_eq_iff)
  have 5: "distinct (ordersByDate st)"
    unfolding bd by (rule d)
  show ?thesis
    by (intro conjI allI) (rule 1 2 3 4 5)+
qed

text \<open>The index entries of the one order of a one-order store.\<close>

theorem indexes_are_views_of_primary_witness:
  "reachable (sampleStore (Suc 0)) \<and>
   findById ''o'' (sampleStore (Suc 0)) = Some (sampleOrder 0) \<and>
   ''o'' \<in> index_ids (ordersByType (sampleStore (Suc 0))) BUY \<and>
   ''o'' \<notin> index_ids (ordersByType (sampleStore (Suc 0))) SELL \<and>
   ''o'' \<in> index_ids (ordersBySymbol (sampleStore (Suc 0))) ''BTC'' \<and>
   ''o'' \<in> index_ids (ordersByAssetType (sampleStore (Suc 0))) Crypto \<and>
   set (ordersByDate (sampleStore (Suc 0))) = {i. findById i (sampleStore (Suc 0)) \<noteq> None}"
proof -
  have r1: "reachable (sampleStore (Suc 0))"
    by (rule reachable_sampleStore)
  have f: "findById ''o'' (sampleStore (Suc 0)) = Some (sampleOrder 0)"
    unfolding sampleStore_1 by (simp add: findById_def)
  have o: "orderId (sampleOrder 0) = ''o''" "orderType (sampleOrder 0) = BUY"
    "assetOrders (sampleOrder 0) = [sampleAssetOrder ''BTC'' (Some Crypto)]"
    by (simp_all add: sampleOrder_def)
  note v = indexes_are_views_of_primary [OF r1]
  have vt: "(i \<in> index_ids (ordersByType (sampleStore (Suc 0))) k) =
      (\<exists>order. findById i (sampleStore (Suc 0)) = Some order \<and> orderId order = i \<and>
         orderType order = k)" for i k
    using v [THEN conjunct1] by simp
  have vs: "(i \<in> index_ids (ordersBySymbol (sampleStore (Suc 0))) k) =
      (\<exists>order. findById i (sampleStore (Suc 0)) = Some order \<and> orderId order = i \<and>
         (\<exists>line \<in> set (assetOrders order). ao_symbol line = k))" for i k
    using v [THEN conjunct2, THEN conjunct1] by simp
  have va: "(i \<in> index_ids (ordersByAssetType (sampleStore (Suc 0))) k) =
      (\<exists>order. findById i (sampleStore (Suc 0)) = Some order \<and> orderId order = i \<and>
         (\<exists>line \<in> set (assetOrders order). ao_type line = Some k))" for i k
    using v [THEN conjunct2, THEN conjunct2, THEN conjunct1] by simp
  have 1: "''o'' \<in> index_ids (ordersByType (sampleStore (Suc 0))) BUY"
    unfolding vt f using o by simp
  have 2: "''o'' \<notin> index_ids (ordersByType (sampleStore (Suc 0))) SELL"
    unfolding vt f using o by simp
  have 3: "''o'' \<in> index_ids (ordersBySymbol (sampleStore (Suc 0))) ''BTC''"
    unfolding vs f using o by (simp add: sampleAssetOrder_def)
  have 4: "''o'' \<in> index_ids (ordersByAssetType (sampleStore (Suc 0))) Crypto"
    unfolding va f using o by (simp add: sampleAssetOrder_def)
  have 5: "set (ordersByDate (sampleStore (Suc 0))) =
      {i. findById i (sampleStore (Suc 0)) \<noteq> None}"
    using v [THEN conjunct2, THEN conjunct2, THEN conjunct2, THEN conjunct1] .
  from r1 f 1 2 3 4 5 show ?thesis
    by simp
qed

subsection \<open>The statistics cache\<close>

lemma computeStats_statsCache: "computeStats (st\<lparr>statsCache := c\<rparr>) = computeStats st"
  by (simp add: computeStats_def Let_def)

lemma cache_fresh_getStats: "cache_fresh st \<Longrightarrow> cache_fresh (snd (getStats now st))"
  by (simp add: getStats_def cache_fresh_def Let_def computeStats_statsCache split: option.splits)

lemma reachable_cache_fresh: "reachable st \<Longrightarrow> cache_fresh st"
proof (induction rule: reachable.induct)
  case reachable_new
  show ?case by (simp add: cache_fresh_def newRepository_def)
next
  case (reachable_step st op)
  then show ?case
    by (cases op) (simp_all add: cache_fresh_getStats, simp_all add: cache_fresh_def save_state clear_def)
qed

text \<open>
  C8. In every reachable state of the repository, a statistics cache that is not null
  holds the statistics that a recomputation from the current primary map and indexes
  gives; so a call of \<open>getStats\<close>, at any clock value and whatever the TTL says, returns
  the statistics of the current state. Insert and reset both leave the cache null.
\<close>

theorem stats_cache_never_stale:
  assumes "reachable st"
  shows "(case statsCache st of None \<Rightarrow> True | Some c \<Rightarrow> cache_data c = computeStats st) \<and>
         fst (getStats now st) = computeStats st \<and>
         statsCache (snd (save order st)) = None \<and>
         statsCache (clear st) = None"
proof -
  have "cache_fresh st"
    using assms by (rule reachable_cache_fresh)
  then show ?thesis
    by (simp add: cache_fresh_def getStats_def Let_def save_state clear_def split: option.splits)
qed

text \<open>
  A store whose statistics were cached at time 1000: a call within the TTL and a call
  after it both return the statistics of the store.
\<close>

theorem stats_cache_never_stale_witness:
  "reachable cachedStore \<and>
   statsCache cachedStore =
     Some \<lparr> cache_data = computeStats (sampleStore (Suc 0)), cache_timestamp = 1000,
            cache_ttl = 60000 \<rparr> \<and>
   fst (getStats 1001 cachedStore) = computeStats cachedStore \<and>
   fst (getStats 70000 cachedStore) = computeStats cachedStore \<and>
   totalOrders (computeStats cachedStore) = 1"
proof -
  have r1: "reachable (sampleStore (Suc 0))"
    by (rule reachable_sampleStore)
  have "allowed (GetStats 1000) (sampleStore (Suc 0))"
    by simp
  with r1 have r: "reachable cachedStore"
    unfolding cachedStore_def by (rule reachable_step)
  have c: "statsCache cachedStore =
     Some \<lparr> cache_data = computeStats (sampleStore (Suc 0)), cache_timestamp = 1000,
            cache_ttl = 60000 \<rparr>"
    unfolding cachedStore_def sampleStore_1 by (simp add: getStats_def Let_def)
  have n: "totalOrders (computeStats cachedStore) = 1"
    unfolding cachedStore_def sampleStore_1 by (simp add: getStats_def Let_def computeStats_def)
  have 1: "fst (getStats 1001 cachedStore) = computeStats cachedStore"
    using stats_cache_never_stale [OF r, of 1001, THEN conjunct2, THEN conjunct1] .
  have 2: "fst (getStats 70000 cachedStore) = computeStats cachedStore"
    using stats_cache_never_stale [OF r, of 70000, THEN conjunct2, THEN conjunct1] .
  from r c 1 2 n show ?thesis
    by simp
qed

subsection \<open>Queries\<close>







lemma length_insertBy: "length (insertBy cmp x xs) = Suc (length xs)"
  by (induction xs) simp_all

lemma length_stableSort: "length (stableSort cmp xs) = length xs"
  by (induction xs) (simp_all add: stableSort_def length_insertBy)




















end
